theory Spec2Isabelle
  imports Main "HOL-Library.Sublist" "HOL-Library.AList"
begin

section \<open>Python values handed to the exception constructors\<close>

text \<open>
  The module \<^verbatim>\<open>aiohttp/client_exceptions.py\<close> declares exception classes only. Their
  constructors receive arbitrary Python values: strings, integers, booleans, \<^verbatim>\<open>None\<close>,
  tuples and lists of such, and objects of classes declared elsewhere (the connection key,
  the operating-system error, the certificate error). An object of a foreign class is
  given by the name of its class, the text its own \<^verbatim>\<open>__str__\<close> and \<^verbatim>\<open>__repr__\<close>
  produce, and its attributes.
\<close>

datatype pyval =
    PNone
  | PBool bool
  | PInt int
  | PStr string
  | PTuple "pyval list"
  | PList "pyval list"
  | PObj string string string "(string \<times> pyval) list"

text \<open>The exceptions the modelled code paths can raise while they run.\<close>

datatype pyerror = AttributeError | TypeError | IndexError

type_synonym 'a result = "pyerror + 'a"

definition bind :: "'a result \<Rightarrow> ('a \<Rightarrow> 'b result) \<Rightarrow> 'b result" where
  "bind r f = (case r of Inl err \<Rightarrow> Inl err | Inr v \<Rightarrow> f v)"

subsection \<open>Printing: \<^verbatim>\<open>str\<close>, \<^verbatim>\<open>repr\<close> and \<^verbatim>\<open>format\<close> of the built-in types\<close>

fun str_nat :: "nat \<Rightarrow> string" where
  "str_nat n =
     (if n < 10 then [''0123456789'' ! n]
      else str_nat (n div 10) @ [''0123456789'' ! (n mod 10)])"

declare str_nat.simps [simp del]

definition str_int :: "int \<Rightarrow> string" where
  "str_int i = (if i < 0 then CHR ''-'' # str_nat (nat (- i)) else str_nat (nat i))"

definition hex2 :: "nat \<Rightarrow> string" where
  "hex2 n = [''0123456789abcdef'' ! (n div 16 mod 16), ''0123456789abcdef'' ! (n mod 16)]"

text \<open>
  \<^verbatim>\<open>repr\<close> of a string: single quotes unless the text holds a single quote and no
  double quote; the quote in use and the backslash are escaped, tab, newline and carriage
  return get their letters, the other control characters their \<^verbatim>\<open>\xNN\<close> form.
\<close>

definition repr_quote :: "string \<Rightarrow> char" where
  "repr_quote s =
     (if CHR 0x27 \<in> set s \<and> CHR 0x22 \<notin> set s then CHR 0x22 else CHR 0x27)"

definition repr_char :: "char \<Rightarrow> char \<Rightarrow> string" where
  "repr_char q c =
     (if c = q \<or> c = CHR 0x5C then [CHR 0x5C, c]
      else if c = CHR 0x09 then [CHR 0x5C, CHR ''t'']
      else if c = CHR 0x0A then [CHR 0x5C, CHR ''n'']
      else if c = CHR 0x0D then [CHR 0x5C, CHR ''r'']
      else if (of_char c :: nat) < 32 \<or> (of_char c :: nat) = 127
        then [CHR 0x5C, CHR ''x''] @ hex2 (of_char c)
      else [c])"

definition repr_str :: "string \<Rightarrow> string" where
  "repr_str s = (let q = repr_quote s in [q] @ concat (map (repr_char q) s) @ [q])"

fun join :: "string \<Rightarrow> string list \<Rightarrow> string" where
  "join sep [] = []"
| "join sep [x] = x"
| "join sep (x # y # ys) = x @ sep @ join sep (y # ys)"

fun py_repr :: "pyval \<Rightarrow> string" where
  "py_repr PNone = ''None''"
| "py_repr (PBool b) = (if b then ''True'' else ''False'')"
| "py_repr (PInt i) = str_int i"
| "py_repr (PStr s) = repr_str s"
| "py_repr (PTuple xs) =
     (if length xs = 1 then ''('' @ join '', '' (map py_repr xs) @ '',)''
      else ''('' @ join '', '' (map py_repr xs) @ '')'')"
| "py_repr (PList xs) = ''['' @ join '', '' (map py_repr xs) @ '']''"
| "py_repr (PObj c s r a) = r"

fun py_str :: "pyval \<Rightarrow> string" where
  "py_str (PStr s) = s"
| "py_str (PObj c s r a) = s"
| "py_str v = py_repr v"

text \<open>\<^verbatim>\<open>'{}'.format(v)\<close> and \<^verbatim>\<open>'%s' % v\<close> both print \<^verbatim>\<open>str(v)\<close>.\<close>

definition py_format :: "pyval \<Rightarrow> string" where
  "py_format v = py_str v"

text \<open>\<^verbatim>\<open>v.__class__.__name__\<close>\<close>

fun class_name :: "pyval \<Rightarrow> string" where
  "class_name PNone = ''NoneType''"
| "class_name (PBool b) = ''bool''"
| "class_name (PInt i) = ''int''"
| "class_name (PStr s) = ''str''"
| "class_name (PTuple xs) = ''tuple''"
| "class_name (PList xs) = ''list''"
| "class_name (PObj c s r a) = c"

text \<open>
  Attribute access on a value. The names the module reads (\<^verbatim>\<open>host\<close>, \<^verbatim>\<open>port\<close>,
  \<^verbatim>\<open>ssl\<close>, \<^verbatim>\<open>errno\<close>, \<^verbatim>\<open>strerror\<close>, \<^verbatim>\<open>args\<close>) exist on none of the built-in
  types, so only an object can answer; everything else raises \<^verbatim>\<open>AttributeError\<close>.
\<close>

fun getattr_val :: "pyval \<Rightarrow> string \<Rightarrow> pyval result" where
  "getattr_val (PObj c s r a) name =
     (case map_of a name of Some v \<Rightarrow> Inr v | None \<Rightarrow> Inl AttributeError)"
| "getattr_val v name = Inl AttributeError"

text \<open>The test \<^verbatim>\<open>sub in s\<close> on strings.\<close>

fun contains :: "string \<Rightarrow> string \<Rightarrow> bool" where
  "contains [] sub = (sub = [])"
| "contains (c # cs) sub = (prefix sub (c # cs) \<or> contains cs sub)"

section \<open>The classes and their bases\<close>

text \<open>
  The classes of the module, followed by the classes of the language and its standard
  library that they derive from. \<^verbatim>\<open>TimeoutError\<close> stands for \<^verbatim>\<open>asyncio.TimeoutError\<close>,
  \<^verbatim>\<open>SSLError\<close> and \<^verbatim>\<open>CertificateError\<close> for the two classes of the \<^verbatim>\<open>ssl\<close> module.
\<close>

datatype cls =
    ClientError
  | ClientResponseError
  | ContentTypeError
  | WSServerHandshakeError
  | ClientHttpProxyError
  | ClientConnectionError
  | ClientOSError
  | ClientConnectorError
  | ClientProxyConnectionError
  | ServerConnectionError
  | ServerDisconnectedError
  | ServerTimeoutError
  | ServerFingerprintMismatch
  | ClientPayloadError
  | InvalidURL
  | ClientConnectorSSLError
  | ClientConnectorCertificateError
  | Object
  | BaseException
  | Exception
  | OSError
  | ValueError
  | TimeoutError
  | SSLError
  | CertificateError

fun cls_name :: "cls \<Rightarrow> string" where
  "cls_name ClientError = ''ClientError''"
| "cls_name ClientResponseError = ''ClientResponseError''"
| "cls_name ContentTypeError = ''ContentTypeError''"
| "cls_name WSServerHandshakeError = ''WSServerHandshakeError''"
| "cls_name ClientHttpProxyError = ''ClientHttpProxyError''"
| "cls_name ClientConnectionError = ''ClientConnectionError''"
| "cls_name ClientOSError = ''ClientOSError''"
| "cls_name ClientConnectorError = ''ClientConnectorError''"
| "cls_name ClientProxyConnectionError = ''ClientProxyConnectionError''"
| "cls_name ServerConnectionError = ''ServerConnectionError''"
| "cls_name ServerDisconnectedError = ''ServerDisconnectedError''"
| "cls_name ServerTimeoutError = ''ServerTimeoutError''"
| "cls_name ServerFingerprintMismatch = ''ServerFingerprintMismatch''"
| "cls_name ClientPayloadError = ''ClientPayloadError''"
| "cls_name InvalidURL = ''InvalidURL''"
| "cls_name ClientConnectorSSLError = ''ClientConnectorSSLError''"
| "cls_name ClientConnectorCertificateError = ''ClientConnectorCertificateError''"
| "cls_name Object = ''object''"
| "cls_name BaseException = ''BaseException''"
| "cls_name Exception = ''Exception''"
| "cls_name OSError = ''OSError''"
| "cls_name ValueError = ''ValueError''"
| "cls_name TimeoutError = ''TimeoutError''"
| "cls_name SSLError = ''SSLError''"
| "cls_name CertificateError = ''CertificateError''"

text \<open>
  \<^verbatim>\<open>ssl_error_bases\<close> and \<^verbatim>\<open>certificate_errors_bases\<close>, chosen once when the module
  is loaded: the flag says whether \<^verbatim>\<open>import ssl\<close> succeeded.
\<close>

definition ssl_error_bases :: "bool \<Rightarrow> cls list" where
  "ssl_error_bases has_ssl =
     (if has_ssl then [ClientConnectorError, SSLError] else [ClientConnectorError])"

definition certificate_errors_bases :: "bool \<Rightarrow> cls list" where
  "certificate_errors_bases has_ssl =
     (if has_ssl then [ClientConnectorError, CertificateError]
      else [ClientConnectorError, ValueError])"

text \<open>
  The base list of every class statement, in the order written. The built-in classes have
  the bases they have in the interpreter versions the module was written for (3.4 to 3.6):
  \<^verbatim>\<open>ssl.SSLError\<close> derives from \<^verbatim>\<open>OSError\<close>, \<^verbatim>\<open>ssl.CertificateError\<close> from
  \<^verbatim>\<open>ValueError\<close>, and \<^verbatim>\<open>asyncio.TimeoutError\<close> is an ordinary \<^verbatim>\<open>Exception\<close>.
\<close>

fun bases :: "bool \<Rightarrow> cls \<Rightarrow> cls list" where
  "bases has_ssl ClientError = [Exception]"
| "bases has_ssl ClientResponseError = [ClientError]"
| "bases has_ssl ContentTypeError = [ClientResponseError]"
| "bases has_ssl WSServerHandshakeError = [ClientResponseError]"
| "bases has_ssl ClientHttpProxyError = [ClientResponseError]"
| "bases has_ssl ClientConnectionError = [ClientError]"
| "bases has_ssl ClientOSError = [ClientConnectionError, OSError]"
| "bases has_ssl ClientConnectorError = [ClientOSError]"
| "bases has_ssl ClientProxyConnectionError = [ClientConnectorError]"
| "bases has_ssl ServerConnectionError = [ClientConnectionError]"
| "bases has_ssl ServerDisconnectedError = [ServerConnectionError]"
| "bases has_ssl ServerTimeoutError = [ServerConnectionError, TimeoutError]"
| "bases has_ssl ServerFingerprintMismatch = [ServerConnectionError]"
| "bases has_ssl ClientPayloadError = [ClientError]"
| "bases has_ssl InvalidURL = [ClientError, ValueError]"
| "bases has_ssl ClientConnectorSSLError = ssl_error_bases has_ssl"
| "bases has_ssl ClientConnectorCertificateError = certificate_errors_bases has_ssl"
| "bases has_ssl Object = []"
| "bases has_ssl BaseException = [Object]"
| "bases has_ssl Exception = [BaseException]"
| "bases has_ssl OSError = [Exception]"
| "bases has_ssl ValueError = [Exception]"
| "bases has_ssl TimeoutError = [Exception]"
| "bases has_ssl SSLError = [OSError]"
| "bases has_ssl CertificateError = [ValueError]"

subsection \<open>Method resolution order\<close>

text \<open>
  The language linearises the bases of a class (C3): the class itself, then the merge of
  the linearisations of its bases and of the base list. The merge repeatedly takes the
  first head that occurs in no tail; when no head qualifies the class statement raises.
\<close>

definition good_head :: "cls list list \<Rightarrow> cls \<Rightarrow> bool" where
  "good_head seqs c = list_all (\<lambda>s. c \<notin> set (tl s)) seqs"

definition drop_head :: "cls \<Rightarrow> cls list \<Rightarrow> cls list" where
  "drop_head c s = (if hd s = c then tl s else s)"

function c3_merge :: "cls list list \<Rightarrow> cls list option" where
  "c3_merge seqs =
     (let ss = filter (\<lambda>s. s \<noteq> []) seqs in
      if ss = [] then Some []
      else case find (good_head ss) (map hd ss) of
             None \<Rightarrow> None
           | Some c \<Rightarrow> map_option ((#) c) (c3_merge (map (drop_head c) ss)))"
  by pat_completeness auto

lemma find_in_set: "find P xs = Some x \<Longrightarrow> x \<in> set xs"
  by (induction xs) (auto split: if_splits)

lemma sum_drop_head_le:
  "(\<Sum>s\<leftarrow>ss. length (drop_head c s)) \<le> (\<Sum>s\<leftarrow>ss. length s)"
  by (induction ss) (auto simp: drop_head_def)

lemma sum_drop_head_less:
  "c \<in> hd ` set ss \<Longrightarrow> [] \<notin> set ss \<Longrightarrow>
   (\<Sum>s\<leftarrow>ss. length (drop_head c s)) < (\<Sum>s\<leftarrow>ss. length s)"
proof (induction ss)
  case Nil
  then show ?case by simp
next
  case (Cons s ss)
  have le: "(\<Sum>s\<leftarrow>ss. length (drop_head c s)) \<le> (\<Sum>s\<leftarrow>ss. length s)"
    by (rule sum_drop_head_le)
  show ?case
  proof (cases "hd s = c")
    case True
    with Cons.prems have "length (drop_head c s) < length s"
      by (cases s) (auto simp: drop_head_def)
    with le show ?thesis by simp
  next
    case False
    with Cons.prems have "c \<in> hd ` set ss" "[] \<notin> set ss" by auto
    from Cons.IH [OF this] show ?thesis by (simp add: drop_head_def False)
  qed
qed

lemma sum_filter_le:
  "(\<Sum>s\<leftarrow>filter P (map f ss). length s) \<le> (\<Sum>s\<leftarrow>ss. length (f s))"
  by (induction ss) auto

termination c3_merge
proof (relation "measure (\<lambda>seqs. \<Sum>s\<leftarrow>filter (\<lambda>s. s \<noteq> []) seqs. length s)", goal_cases)
  case 1
  show ?case by simp
next
  case (2 seqs ss c)
  have c: "c \<in> hd ` set ss"
    using find_in_set [OF 2(3)] by simp
  have ne: "[] \<notin> set ss" using 2(1) by auto
  have "(\<Sum>s\<leftarrow>filter (\<lambda>s. s \<noteq> []) (map (drop_head c) ss). length s)
        \<le> (\<Sum>s\<leftarrow>ss. length (drop_head c s))"
    by (rule sum_filter_le)
  also have "\<dots> < (\<Sum>s\<leftarrow>ss. length s)" by (rule sum_drop_head_less [OF c ne])
  finally show ?case using 2(1) by simp
qed

declare c3_merge.simps [simp del]

text \<open>The length of the longest chain of bases below a class: the hierarchy has no cycle.\<close>

fun cls_depth :: "cls \<Rightarrow> nat" where
  "cls_depth Object = 0"
| "cls_depth BaseException = 1"
| "cls_depth Exception = 2"
| "cls_depth OSError = 3"
| "cls_depth ValueError = 3"
| "cls_depth TimeoutError = 3"
| "cls_depth SSLError = 4"
| "cls_depth CertificateError = 4"
| "cls_depth ClientError = 3"
| "cls_depth ClientResponseError = 4"
| "cls_depth ContentTypeError = 5"
| "cls_depth WSServerHandshakeError = 5"
| "cls_depth ClientHttpProxyError = 5"
| "cls_depth ClientConnectionError = 4"
| "cls_depth ClientOSError = 5"
| "cls_depth ClientConnectorError = 6"
| "cls_depth ClientProxyConnectionError = 7"
| "cls_depth ServerConnectionError = 5"
| "cls_depth ServerDisconnectedError = 6"
| "cls_depth ServerTimeoutError = 6"
| "cls_depth ServerFingerprintMismatch = 6"
| "cls_depth ClientPayloadError = 4"
| "cls_depth InvalidURL = 4"
| "cls_depth ClientConnectorSSLError = 7"
| "cls_depth ClientConnectorCertificateError = 7"

lemma bases_depth: "b \<in> set (bases has_ssl c) \<Longrightarrow> cls_depth b < cls_depth c"
  by (cases c) (auto simp: ssl_error_bases_def certificate_errors_bases_def split: if_splits)

fun those_all :: "'a option list \<Rightarrow> 'a list option" where
  "those_all [] = Some []"
| "those_all (None # xs) = None"
| "those_all (Some x # xs) = map_option ((#) x) (those_all xs)"

function mro :: "bool \<Rightarrow> cls \<Rightarrow> cls list option" where
  "mro has_ssl c =
     (case those_all (map (mro has_ssl) (bases has_ssl c)) of
        None \<Rightarrow> None
      | Some ls \<Rightarrow> map_option ((#) c) (c3_merge (ls @ [bases has_ssl c])))"
  by pat_completeness auto
termination
  by (relation "measure (\<lambda>(has_ssl, c). cls_depth c)") (auto simp: bases_depth)

declare mro.simps [simp del]

definition the_mro :: "bool \<Rightarrow> cls \<Rightarrow> cls list" where
  "the_mro has_ssl c = (case mro has_ssl c of Some l \<Rightarrow> l | None \<Rightarrow> [])"

text \<open>\<^verbatim>\<open>issubclass(c, d)\<close> and \<^verbatim>\<open>isinstance(e, d)\<close>: \<^verbatim>\<open>d\<close> occurs in the resolution order.\<close>

definition issubclass :: "bool \<Rightarrow> cls \<Rightarrow> cls \<Rightarrow> bool" where
  "issubclass has_ssl c d = (d \<in> set (the_mro has_ssl c))"

section \<open>Exception objects\<close>

text \<open>
  An exception object: its class, the \<^verbatim>\<open>args\<close> tuple every exception has, the four
  slots of \<^verbatim>\<open>OSError\<close> (unset, or holding a value) and the instance dictionary that
  \<^verbatim>\<open>self.name = value\<close> writes, in insertion order.
\<close>

record exc =
  exc_class :: cls
  args :: "pyval list"
  errno :: "pyval option"
  strerror :: "pyval option"
  filename :: "pyval option"
  filename2 :: "pyval option"
  attrs :: "(string \<times> pyval) list"

definition blank :: "cls \<Rightarrow> exc" where
  "blank c = \<lparr>exc_class = c, args = [], errno = None, strerror = None,
              filename = None, filename2 = None, attrs = []\<rparr>"

definition isinstance :: "bool \<Rightarrow> exc \<Rightarrow> cls \<Rightarrow> bool" where
  "isinstance has_ssl e c = issubclass has_ssl (exc_class e) c"

subsection \<open>What each class body defines\<close>

text \<open>
  The special methods and the properties written in each class body of the module, and
  those of the built-in classes below them. \<^verbatim>\<open>Exception\<close> and \<^verbatim>\<open>ValueError\<close> share
  the functions of \<^verbatim>\<open>BaseException\<close>, and \<^verbatim>\<open>SSLError\<close> adds a \<^verbatim>\<open>__str__\<close> of its own.
\<close>

fun methods :: "cls \<Rightarrow> string list" where
  "methods ClientResponseError = [''__init__'']"
| "methods ClientConnectorError = [''__init__'', ''__str__'']"
| "methods ServerDisconnectedError = [''__init__'']"
| "methods ServerFingerprintMismatch = [''__init__'', ''__repr__'']"
| "methods InvalidURL = [''__init__'', ''__repr__'']"
| "methods ClientConnectorCertificateError = [''__init__'', ''__str__'']"
| "methods BaseException = [''__new__'', ''__init__'', ''__str__'', ''__repr__'']"
| "methods OSError = [''__new__'', ''__init__'', ''__str__'']"
| "methods SSLError = [''__str__'']"
| "methods c = []"

fun properties :: "cls \<Rightarrow> string list" where
  "properties ClientConnectorError = [''os_error'', ''host'', ''port'', ''ssl'']"
| "properties InvalidURL = [''url'']"
| "properties ClientConnectorCertificateError =
     [''certificate_error'', ''host'', ''port'', ''ssl'']"
| "properties BaseException = [''args'']"
| "properties OSError = [''errno'', ''strerror'', ''filename'', ''filename2'']"
| "properties c = []"

text \<open>Lookup along the resolution order; \<^verbatim>\<open>super()\<close> in class \<open>k\<close> starts after \<open>k\<close>.\<close>

definition resolve :: "bool \<Rightarrow> cls \<Rightarrow> string \<Rightarrow> cls option" where
  "resolve has_ssl c name = find (\<lambda>k. name \<in> set (methods k)) (the_mro has_ssl c)"

definition resolve_super :: "bool \<Rightarrow> cls \<Rightarrow> cls \<Rightarrow> string \<Rightarrow> cls option" where
  "resolve_super has_ssl c k name =
     find (\<lambda>k'. name \<in> set (methods k'))
       (drop 1 (dropWhile (\<lambda>x. x \<noteq> k) (the_mro has_ssl c)))"

definition resolve_property :: "bool \<Rightarrow> cls \<Rightarrow> string \<Rightarrow> cls option" where
  "resolve_property has_ssl c name =
     find (\<lambda>k. name \<in> set (properties k)) (the_mro has_ssl c)"

subsection \<open>Reading and writing attributes\<close>

definition self_attr :: "exc \<Rightarrow> string \<Rightarrow> pyval result" where
  "self_attr e name =
     (case map_of (attrs e) name of Some v \<Rightarrow> Inr v | None \<Rightarrow> Inl AttributeError)"

definition slot_val :: "pyval option \<Rightarrow> pyval" where
  "slot_val s = (case s of None \<Rightarrow> PNone | Some v \<Rightarrow> v)"

text \<open>The properties of \<^verbatim>\<open>ClientConnectorError\<close>.\<close>

definition ClientConnectorError_os_error :: "exc \<Rightarrow> pyval result" where
  "ClientConnectorError_os_error e = self_attr e ''_os_error''"

definition ClientConnectorError_host :: "exc \<Rightarrow> pyval result" where
  "ClientConnectorError_host e = bind (self_attr e ''_conn_key'') (\<lambda>k. getattr_val k ''host'')"

definition ClientConnectorError_port :: "exc \<Rightarrow> pyval result" where
  "ClientConnectorError_port e = bind (self_attr e ''_conn_key'') (\<lambda>k. getattr_val k ''port'')"

definition ClientConnectorError_ssl :: "exc \<Rightarrow> pyval result" where
  "ClientConnectorError_ssl e = bind (self_attr e ''_conn_key'') (\<lambda>k. getattr_val k ''ssl'')"

text \<open>The property of \<^verbatim>\<open>InvalidURL\<close>: \<^verbatim>\<open>self.args[0]\<close>.\<close>

definition InvalidURL_url :: "exc \<Rightarrow> pyval result" where
  "InvalidURL_url e = (case args e of [] \<Rightarrow> Inl IndexError | a # as \<Rightarrow> Inr a)"

text \<open>The properties of \<^verbatim>\<open>ClientConnectorCertificateError\<close>.\<close>

definition ClientConnectorCertificateError_certificate_error :: "exc \<Rightarrow> pyval result" where
  "ClientConnectorCertificateError_certificate_error e = self_attr e ''_certificate_error''"

definition ClientConnectorCertificateError_host :: "exc \<Rightarrow> pyval result" where
  "ClientConnectorCertificateError_host e =
     bind (self_attr e ''_conn_key'') (\<lambda>k. getattr_val k ''host'')"

definition ClientConnectorCertificateError_port :: "exc \<Rightarrow> pyval result" where
  "ClientConnectorCertificateError_port e =
     bind (self_attr e ''_conn_key'') (\<lambda>k. getattr_val k ''port'')"

definition ClientConnectorCertificateError_ssl :: "exc \<Rightarrow> pyval result" where
  "ClientConnectorCertificateError_ssl e =
     bind (self_attr e ''_conn_key'') (\<lambda>k. getattr_val k ''ssl'')"

definition property_get :: "cls \<Rightarrow> string \<Rightarrow> exc \<Rightarrow> pyval result" where
  "property_get k name e =
     (if k = ClientConnectorError \<and> name = ''os_error'' then ClientConnectorError_os_error e
      else if k = ClientConnectorError \<and> name = ''host'' then ClientConnectorError_host e
      else if k = ClientConnectorError \<and> name = ''port'' then ClientConnectorError_port e
      else if k = ClientConnectorError \<and> name = ''ssl'' then ClientConnectorError_ssl e
      else if k = InvalidURL \<and> name = ''url'' then InvalidURL_url e
      else if k = ClientConnectorCertificateError \<and> name = ''certificate_error''
        then ClientConnectorCertificateError_certificate_error e
      else if k = ClientConnectorCertificateError \<and> name = ''host''
        then ClientConnectorCertificateError_host e
      else if k = ClientConnectorCertificateError \<and> name = ''port''
        then ClientConnectorCertificateError_port e
      else if k = ClientConnectorCertificateError \<and> name = ''ssl''
        then ClientConnectorCertificateError_ssl e
      else if k = BaseException \<and> name = ''args'' then Inr (PTuple (args e))
      else if k = OSError \<and> name = ''errno'' then Inr (slot_val (errno e))
      else if k = OSError \<and> name = ''strerror'' then Inr (slot_val (strerror e))
      else if k = OSError \<and> name = ''filename'' then Inr (slot_val (filename e))
      else if k = OSError \<and> name = ''filename2'' then Inr (slot_val (filename2 e))
      else Inl AttributeError)"

text \<open>
  \<^verbatim>\<open>e.name\<close> for a data attribute: a property or slot found along the resolution order
  wins over the instance dictionary.
\<close>

definition getattr :: "bool \<Rightarrow> exc \<Rightarrow> string \<Rightarrow> pyval result" where
  "getattr has_ssl e name =
     (case resolve_property has_ssl (exc_class e) name of
        Some k \<Rightarrow> property_get k name e
      | None \<Rightarrow> self_attr e name)"

text \<open>
  \<^verbatim>\<open>self.name = v\<close>. The properties of the module have no setter, so assigning to one
  raises; the module itself assigns plain names only, never a built-in slot.
\<close>

definition setattr :: "bool \<Rightarrow> exc \<Rightarrow> string \<Rightarrow> pyval \<Rightarrow> exc result" where
  "setattr has_ssl e name v =
     (case resolve_property has_ssl (exc_class e) name of
        Some k \<Rightarrow> Inl AttributeError
      | None \<Rightarrow> Inr (e\<lparr>attrs := AList.update name v (attrs e)\<rparr>))"

section \<open>Calling a class\<close>

subsection \<open>Binding the arguments of a call to the parameters of \<^verbatim>\<open>__init__\<close>\<close>

text \<open>
  A parameter is a name with an optional default. Positional arguments fill the
  parameters from the left; a parameter left over takes its keyword argument, else its
  default, else the call raises \<^verbatim>\<open>TypeError\<close>; so does an argument too many, a
  parameter given twice, or an unknown keyword.
\<close>

type_synonym params = "(string \<times> pyval option) list"

fun bind_params :: "params \<Rightarrow> pyval list \<Rightarrow> (string \<times> pyval) list \<Rightarrow> pyval list result" where
  "bind_params [] [] kw = Inr []"
| "bind_params [] (a # as) kw = Inl TypeError"
| "bind_params ((n, d) # ps) (a # as) kw =
     (if map_of kw n \<noteq> None then Inl TypeError
      else bind (bind_params ps as kw) (\<lambda>vs. Inr (a # vs)))"
| "bind_params ((n, d) # ps) [] kw =
     (case map_of kw n of
        Some v \<Rightarrow> bind (bind_params ps [] kw) (\<lambda>vs. Inr (v # vs))
      | None \<Rightarrow>
          (case d of
             Some v \<Rightarrow> bind (bind_params ps [] kw) (\<lambda>vs. Inr (v # vs))
           | None \<Rightarrow> Inl TypeError))"

definition bind_args ::
  "params \<Rightarrow> params \<Rightarrow> pyval list \<Rightarrow> (string \<times> pyval) list \<Rightarrow> pyval list result" where
  "bind_args pos kwonly as kw =
     (if list_all (\<lambda>(n, v). n \<in> set (map fst (pos @ kwonly))) kw
      then bind (bind_params pos as kw) (\<lambda>vs.
           bind (bind_params kwonly [] kw) (\<lambda>ws. Inr (vs @ ws)))
      else Inl TypeError)"

subsection \<open>The built-in allocators and initialisers\<close>

text \<open>
  \<^verbatim>\<open>BaseException.__new__\<close> records the positional arguments in \<^verbatim>\<open>args\<close> whatever
  \<^verbatim>\<open>__init__\<close> does later; \<^verbatim>\<open>BaseException.__init__\<close> records them again and accepts
  no keyword.
\<close>

definition BaseException_new :: "cls \<Rightarrow> pyval list \<Rightarrow> (string \<times> pyval) list \<Rightarrow> exc result" where
  "BaseException_new c as kw = Inr ((blank c)\<lparr>args := as\<rparr>)"

definition BaseException_init :: "exc \<Rightarrow> pyval list \<Rightarrow> (string \<times> pyval) list \<Rightarrow> exc result" where
  "BaseException_init e as kw = (if kw \<noteq> [] then Inl TypeError else Inr (e\<lparr>args := as\<rparr>))"

text \<open>
  \<^verbatim>\<open>OSError\<close> fills its slots from two to five arguments (errno, strerror, filename,
  winerror, filename2; winerror is ignored outside Windows, and a filename that is
  \<^verbatim>\<open>None\<close> counts as not given); a filename that is given cuts \<^verbatim>\<open>args\<close> down to the
  first two.
  It does so in \<^verbatim>\<open>__new__\<close>, unless the class overrides \<^verbatim>\<open>__init__\<close> and not
  \<^verbatim>\<open>__new__\<close>: then \<^verbatim>\<open>__new__\<close> leaves \<^verbatim>\<open>args\<close> empty and the slots unset, and the
  work is left to \<^verbatim>\<open>OSError.__init__\<close>, should the override call it.
\<close>

definition use_init :: "bool \<Rightarrow> cls \<Rightarrow> bool" where
  "use_init has_ssl c =
     (resolve has_ssl c ''__init__'' \<noteq> Some OSError \<and> resolve has_ssl c ''__new__'' = Some OSError)"

definition oserror_init :: "exc \<Rightarrow> pyval list \<Rightarrow> exc" where
  "oserror_init e as =
     (let n = length as;
          parsed = (2 \<le> n \<and> n \<le> 5);
          fn = (if parsed \<and> 3 \<le> n \<and> as ! 2 \<noteq> PNone then Some (as ! 2) else None);
          fn2 = (if fn \<noteq> None \<and> n = 5 \<and> as ! 4 \<noteq> PNone then Some (as ! 4) else None)
      in e\<lparr>args := (if fn \<noteq> None then take 2 as else as),
            errno := (if parsed then Some (as ! 0) else None),
            strerror := (if parsed then Some (as ! 1) else None),
            filename := fn,
            filename2 := fn2\<rparr>)"

definition OSError_new :: "bool \<Rightarrow> cls \<Rightarrow> pyval list \<Rightarrow> (string \<times> pyval) list \<Rightarrow> exc result" where
  "OSError_new has_ssl c as kw =
     (if use_init has_ssl c then Inr (blank c)
      else if kw \<noteq> [] then Inl TypeError
      else Inr (oserror_init (blank c) as))"

definition OSError_init :: "bool \<Rightarrow> exc \<Rightarrow> pyval list \<Rightarrow> (string \<times> pyval) list \<Rightarrow> exc result" where
  "OSError_init has_ssl e as kw =
     (if \<not> use_init has_ssl (exc_class e) then Inr e
      else if kw \<noteq> [] then Inl TypeError
      else Inr (oserror_init e as))"

text \<open>
  \<^verbatim>\<open>super().__init__(...)\<close> written in class \<open>k\<close>. In this hierarchy the next
  \<^verbatim>\<open>__init__\<close> after a class of the module that calls it is always a built-in one.
\<close>

definition super_init ::
  "bool \<Rightarrow> cls \<Rightarrow> exc \<Rightarrow> pyval list \<Rightarrow> (string \<times> pyval) list \<Rightarrow> exc result" where
  "super_init has_ssl k e as kw =
     (case resolve_super has_ssl (exc_class e) k ''__init__'' of
        Some c \<Rightarrow>
          (if c = OSError then OSError_init has_ssl e as kw
           else if c = BaseException then BaseException_init e as kw
           else Inl TypeError)
      | None \<Rightarrow> Inl TypeError)"

subsection \<open>The \<^verbatim>\<open>__init__\<close> methods of the module\<close>

definition ClientResponseError_init ::
  "bool \<Rightarrow> exc \<Rightarrow> pyval list \<Rightarrow> (string \<times> pyval) list \<Rightarrow> exc result" where
  "ClientResponseError_init has_ssl e as kw =
     bind (bind_args [(''request_info'', None), (''history'', None)]
             [(''code'', Some (PInt 0)), (''message'', Some (PStr [])), (''headers'', Some PNone)]
             as kw)
       (\<lambda>vs. case vs of
          [request_info, history, code, message, headers] \<Rightarrow>
            bind (setattr has_ssl e ''request_info'' request_info) (\<lambda>e.
            bind (setattr has_ssl e ''code'' code) (\<lambda>e.
            bind (setattr has_ssl e ''message'' message) (\<lambda>e.
            bind (setattr has_ssl e ''headers'' headers) (\<lambda>e.
            bind (setattr has_ssl e ''history'' history) (\<lambda>e.
            super_init has_ssl ClientResponseError e
              [PStr (py_format code @ '', message='' @ [CHR 0x27] @ py_format message
                     @ [CHR 0x27])] [])))))
        | _ \<Rightarrow> Inl TypeError)"

definition ClientConnectorError_init ::
  "bool \<Rightarrow> exc \<Rightarrow> pyval list \<Rightarrow> (string \<times> pyval) list \<Rightarrow> exc result" where
  "ClientConnectorError_init has_ssl e as kw =
     bind (bind_args [(''connection_key'', None), (''os_error'', None)] [] as kw)
       (\<lambda>vs. case vs of
          [connection_key, os_error] \<Rightarrow>
            bind (setattr has_ssl e ''_conn_key'' connection_key) (\<lambda>e.
            bind (setattr has_ssl e ''_os_error'' os_error) (\<lambda>e.
            bind (getattr_val os_error ''errno'') (\<lambda>en.
            bind (getattr_val os_error ''strerror'') (\<lambda>se.
            super_init has_ssl ClientConnectorError e [en, se] []))))
        | _ \<Rightarrow> Inl TypeError)"

definition ServerDisconnectedError_init ::
  "bool \<Rightarrow> exc \<Rightarrow> pyval list \<Rightarrow> (string \<times> pyval) list \<Rightarrow> exc result" where
  "ServerDisconnectedError_init has_ssl e as kw =
     bind (bind_args [(''message'', Some PNone)] [] as kw)
       (\<lambda>vs. case vs of
          [message] \<Rightarrow> setattr has_ssl e ''message'' message
        | _ \<Rightarrow> Inl TypeError)"

definition ServerFingerprintMismatch_init ::
  "bool \<Rightarrow> exc \<Rightarrow> pyval list \<Rightarrow> (string \<times> pyval) list \<Rightarrow> exc result" where
  "ServerFingerprintMismatch_init has_ssl e as kw =
     bind (bind_args [(''expected'', None), (''got'', None), (''host'', None), (''port'', None)]
             [] as kw)
       (\<lambda>vs. case vs of
          [expected, got, host, port] \<Rightarrow>
            bind (setattr has_ssl e ''expected'' expected) (\<lambda>e.
            bind (setattr has_ssl e ''got'' got) (\<lambda>e.
            bind (setattr has_ssl e ''host'' host) (\<lambda>e.
            setattr has_ssl e ''port'' port)))
        | _ \<Rightarrow> Inl TypeError)"

definition InvalidURL_init ::
  "bool \<Rightarrow> exc \<Rightarrow> pyval list \<Rightarrow> (string \<times> pyval) list \<Rightarrow> exc result" where
  "InvalidURL_init has_ssl e as kw =
     bind (bind_args [(''url'', None)] [] as kw)
       (\<lambda>vs. case vs of
          [url] \<Rightarrow> super_init has_ssl InvalidURL e [url] []
        | _ \<Rightarrow> Inl TypeError)"

definition ClientConnectorCertificateError_init ::
  "bool \<Rightarrow> exc \<Rightarrow> pyval list \<Rightarrow> (string \<times> pyval) list \<Rightarrow> exc result" where
  "ClientConnectorCertificateError_init has_ssl e as kw =
     bind (bind_args [(''connection_key'', None), (''certificate_error'', None)] [] as kw)
       (\<lambda>vs. case vs of
          [connection_key, certificate_error] \<Rightarrow>
            bind (setattr has_ssl e ''_conn_key'' connection_key) (\<lambda>e.
            setattr has_ssl e ''_certificate_error'' certificate_error)
        | _ \<Rightarrow> Inl TypeError)"

subsection \<open>\<^verbatim>\<open>cls(*args, **kw)\<close>\<close>

definition call_new :: "bool \<Rightarrow> cls \<Rightarrow> pyval list \<Rightarrow> (string \<times> pyval) list \<Rightarrow> exc result" where
  "call_new has_ssl c as kw =
     (case resolve has_ssl c ''__new__'' of
        Some k \<Rightarrow> (if k = OSError then OSError_new has_ssl c as kw
                   else BaseException_new c as kw)
      | None \<Rightarrow> Inl TypeError)"

definition call_init ::
  "bool \<Rightarrow> cls \<Rightarrow> exc \<Rightarrow> pyval list \<Rightarrow> (string \<times> pyval) list \<Rightarrow> exc result" where
  "call_init has_ssl k e as kw =
     (if k = ClientResponseError then ClientResponseError_init has_ssl e as kw
      else if k = ClientConnectorError then ClientConnectorError_init has_ssl e as kw
      else if k = ServerDisconnectedError then ServerDisconnectedError_init has_ssl e as kw
      else if k = ServerFingerprintMismatch then ServerFingerprintMismatch_init has_ssl e as kw
      else if k = InvalidURL then InvalidURL_init has_ssl e as kw
      else if k = ClientConnectorCertificateError
        then ClientConnectorCertificateError_init has_ssl e as kw
      else if k = OSError then OSError_init has_ssl e as kw
      else BaseException_init e as kw)"

definition construct :: "bool \<Rightarrow> cls \<Rightarrow> pyval list \<Rightarrow> (string \<times> pyval) list \<Rightarrow> exc result" where
  "construct has_ssl c as kw =
     bind (call_new has_ssl c as kw) (\<lambda>e.
       case resolve has_ssl c ''__init__'' of
         Some k \<Rightarrow> call_init has_ssl k e as kw
       | None \<Rightarrow> Inl TypeError)"

section \<open>The string forms\<close>

definition BaseException_str :: "exc \<Rightarrow> string" where
  "BaseException_str e =
     (case args e of [] \<Rightarrow> [] | [a] \<Rightarrow> py_str a | _ \<Rightarrow> py_str (PTuple (args e)))"

definition OSError_str :: "exc \<Rightarrow> string" where
  "OSError_str e =
     (case filename e of
        Some f \<Rightarrow>
          ''[Errno '' @ py_str (slot_val (errno e)) @ ''] '' @ py_str (slot_val (strerror e))
            @ '': '' @ py_repr f
            @ (case filename2 e of Some f2 \<Rightarrow> '' -> '' @ py_repr f2 | None \<Rightarrow> [])
      | None \<Rightarrow>
          (if errno e \<noteq> None \<and> strerror e \<noteq> None
           then ''[Errno '' @ py_str (slot_val (errno e)) @ ''] ''
                  @ py_str (slot_val (strerror e))
           else BaseException_str e))"

definition SSLError_str :: "exc \<Rightarrow> string" where
  "SSLError_str e =
     (case strerror e of Some (PStr s) \<Rightarrow> s | _ \<Rightarrow> py_str (PTuple (args e)))"

text \<open>
  \<^verbatim>\<open>ClientConnectorError.__str__\<close>: the argument \<^verbatim>\<open>self.strerror\<close> is read first, then
  the fields of the template from left to right.
\<close>

definition ClientConnectorError_str :: "bool \<Rightarrow> exc \<Rightarrow> string result" where
  "ClientConnectorError_str has_ssl e =
     bind (getattr has_ssl e ''strerror'') (\<lambda>se.
     bind (getattr has_ssl e ''host'') (\<lambda>h.
     bind (getattr has_ssl e ''port'') (\<lambda>p.
     bind (getattr has_ssl e ''ssl'') (\<lambda>s.
     Inr (''Cannot connect to host '' @ py_format h @ '':'' @ py_format p @ '' ssl:''
          @ py_format s @ '' ['' @ py_format se @ '']'')))))"

definition ClientConnectorCertificateError_str :: "bool \<Rightarrow> exc \<Rightarrow> string result" where
  "ClientConnectorCertificateError_str has_ssl e =
     bind (getattr has_ssl e ''host'') (\<lambda>h.
     bind (getattr has_ssl e ''port'') (\<lambda>p.
     bind (getattr has_ssl e ''ssl'') (\<lambda>s.
     bind (getattr has_ssl e ''certificate_error'') (\<lambda>ce.
     bind (getattr has_ssl e ''certificate_error'') (\<lambda>ce'.
     bind (getattr_val ce' ''args'') (\<lambda>ca.
     Inr (''Cannot connect to host '' @ py_format h @ '':'' @ py_format p @ '' ssl:''
          @ py_format s @ '' ['' @ class_name ce @ '': '' @ py_format ca @ '']'')))))))"

definition exc_str :: "bool \<Rightarrow> exc \<Rightarrow> string result" where
  "exc_str has_ssl e =
     (case resolve has_ssl (exc_class e) ''__str__'' of
        Some k \<Rightarrow>
          (if k = ClientConnectorError then ClientConnectorError_str has_ssl e
           else if k = ClientConnectorCertificateError
             then ClientConnectorCertificateError_str has_ssl e
           else if k = OSError then Inr (OSError_str e)
           else if k = SSLError then Inr (SSLError_str e)
           else Inr (BaseException_str e))
      | None \<Rightarrow> Inl TypeError)"

text \<open>
  \<^verbatim>\<open>__repr__\<close>: the two the module writes, and the built-in one, which in those
  interpreter versions is the class name followed by the printed \<^verbatim>\<open>args\<close> tuple.
\<close>

definition ServerFingerprintMismatch_repr :: "bool \<Rightarrow> exc \<Rightarrow> string result" where
  "ServerFingerprintMismatch_repr has_ssl e =
     bind (getattr has_ssl e ''expected'') (\<lambda>x.
     bind (getattr has_ssl e ''got'') (\<lambda>g.
     bind (getattr has_ssl e ''host'') (\<lambda>h.
     bind (getattr has_ssl e ''port'') (\<lambda>p.
     Inr (''<'' @ cls_name (exc_class e) @ '' expected='' @ py_format x @ '' got=''
          @ py_format g @ '' host='' @ py_format h @ '' port='' @ py_format p @ ''>'')))))"

definition InvalidURL_repr :: "bool \<Rightarrow> exc \<Rightarrow> string result" where
  "InvalidURL_repr has_ssl e =
     bind (getattr has_ssl e ''url'') (\<lambda>u.
     Inr (''<'' @ cls_name (exc_class e) @ '' '' @ py_format u @ ''>''))"

definition BaseException_repr :: "exc \<Rightarrow> string" where
  "BaseException_repr e = cls_name (exc_class e) @ py_repr (PTuple (args e))"

definition exc_repr :: "bool \<Rightarrow> exc \<Rightarrow> string result" where
  "exc_repr has_ssl e =
     (case resolve has_ssl (exc_class e) ''__repr__'' of
        Some k \<Rightarrow>
          (if k = ServerFingerprintMismatch then ServerFingerprintMismatch_repr has_ssl e
           else if k = InvalidURL then InvalidURL_repr has_ssl e
           else Inr (BaseException_repr e))
      | None \<Rightarrow> Inl TypeError)"

section \<open>Values of the collaborating components\<close>

text \<open>
  Modelled from the spec: the connection identity, the triple of target host, port and
  TLS-requested flag, is a record declared outside this module (the connector builds it);
  the module only reads its fields \<^verbatim>\<open>host\<close>, \<^verbatim>\<open>port\<close> and \<^verbatim>\<open>ssl\<close>. It prints as a
  named tuple does.
\<close>

definition ConnectionKey :: "pyval \<Rightarrow> pyval \<Rightarrow> pyval \<Rightarrow> pyval" where
  "ConnectionKey host port ssl =
     (let r = ''ConnectionKey(host='' @ py_repr host @ '', port='' @ py_repr port
              @ '', ssl='' @ py_repr ssl @ '')''
      in PObj ''ConnectionKey'' r r [(''host'', host), (''port'', port), (''ssl'', ssl)])"

text \<open>The built-in \<^verbatim>\<open>OSError(errno, strerror)\<close> as a value handed to a constructor.\<close>

definition os_error_value :: "int \<Rightarrow> string \<Rightarrow> pyval" where
  "os_error_value en se =
     PObj ''OSError'' (''[Errno '' @ str_int en @ ''] '' @ se)
       (''OSError('' @ str_int en @ '', '' @ repr_str se @ '')'')
       [(''errno'', PInt en), (''strerror'', PStr se), (''args'', PTuple [PInt en, PStr se])]"

text \<open>An exception of a foreign class raised with one message, such as a certificate error.\<close>

definition error_value :: "string \<Rightarrow> string \<Rightarrow> pyval" where
  "error_value cname msg =
     PObj cname msg (cname @ ''('' @ repr_str msg @ '',)'') [(''args'', PTuple [PStr msg])]"

text \<open>
  What the two \<^verbatim>\<open>__str__\<close> methods of the module read through the stored values: the
  three fields of the connection key and the \<^verbatim>\<open>args\<close> of the certificate error.
\<close>

definition has_attr :: "pyval \<Rightarrow> string \<Rightarrow> bool" where
  "has_attr v name = (case getattr_val v name of Inr x \<Rightarrow> True | Inl err \<Rightarrow> False)"

definition fields_readable :: "exc \<Rightarrow> bool" where
  "fields_readable e =
     ((case map_of (attrs e) ''_conn_key'' of
         Some k \<Rightarrow> has_attr k ''host'' \<and> has_attr k ''port'' \<and> has_attr k ''ssl''
       | None \<Rightarrow> True)
      \<and> (case map_of (attrs e) ''_certificate_error'' of
            Some ce \<Rightarrow> has_attr ce ''args''
          | None \<Rightarrow> True))"

text \<open>Construct, then read an attribute, print, or test the class.\<close>

definition construct_get ::
  "bool \<Rightarrow> cls \<Rightarrow> pyval list \<Rightarrow> (string \<times> pyval) list \<Rightarrow> string \<Rightarrow> pyval result" where
  "construct_get has_ssl c as kw name =
     bind (construct has_ssl c as kw) (\<lambda>e. getattr has_ssl e name)"

definition construct_str ::
  "bool \<Rightarrow> cls \<Rightarrow> pyval list \<Rightarrow> (string \<times> pyval) list \<Rightarrow> string result" where
  "construct_str has_ssl c as kw = bind (construct has_ssl c as kw) (exc_str has_ssl)"

definition construct_repr ::
  "bool \<Rightarrow> cls \<Rightarrow> pyval list \<Rightarrow> (string \<times> pyval) list \<Rightarrow> string result" where
  "construct_repr has_ssl c as kw = bind (construct has_ssl c as kw) (exc_repr has_ssl)"

definition result_contains :: "string result \<Rightarrow> string \<Rightarrow> bool" where
  "result_contains r sub = (case r of Inr s \<Rightarrow> contains s sub | Inl err \<Rightarrow> False)"

section \<open>The resolution orders of the hierarchy\<close>

lemma the_mro_table:
  "the_mro has_ssl ClientError =
     [ClientError, Exception, BaseException, Object]"
  "the_mro has_ssl ClientResponseError =
     [ClientResponseError, ClientError, Exception, BaseException, Object]"
  "the_mro has_ssl ContentTypeError =
     [ContentTypeError, ClientResponseError, ClientError, Exception, BaseException, Object]"
  "the_mro has_ssl WSServerHandshakeError =
     [WSServerHandshakeError, ClientResponseError, ClientError, Exception,
           BaseException, Object]"
  "the_mro has_ssl ClientHttpProxyError =
     [ClientHttpProxyError, ClientResponseError, ClientError, Exception,
           BaseException, Object]"
  "the_mro has_ssl ClientConnectionError =
     [ClientConnectionError, ClientError, Exception, BaseException, Object]"
  "the_mro has_ssl ClientOSError =
     [ClientOSError, ClientConnectionError, ClientError, OSError, Exception,
           BaseException, Object]"
  "the_mro has_ssl ClientConnectorError =
     [ClientConnectorError, ClientOSError, ClientConnectionError, ClientError,
           OSError, Exception, BaseException, Object]"
  "the_mro has_ssl ClientProxyConnectionError =
     [ClientProxyConnectionError, ClientConnectorError, ClientOSError,
           ClientConnectionError, ClientError, OSError, Exception, BaseException, Object]"
  "the_mro has_ssl ServerConnectionError =
     [ServerConnectionError, ClientConnectionError, ClientError, Exception,
           BaseException, Object]"
  "the_mro has_ssl ServerDisconnectedError =
     [ServerDisconnectedError, ServerConnectionError, ClientConnectionError,
           ClientError, Exception, BaseException, Object]"
  "the_mro has_ssl ServerTimeoutError =
     [ServerTimeoutError, ServerConnectionError, ClientConnectionError, ClientError,
           TimeoutError, Exception, BaseException, Object]"
  "the_mro has_ssl ServerFingerprintMismatch =
     [ServerFingerprintMismatch, ServerConnectionError, ClientConnectionError,
           ClientError, Exception, BaseException, Object]"
  "the_mro has_ssl ClientPayloadError =
     [ClientPayloadError, ClientError, Exception, BaseException, Object]"
  "the_mro has_ssl InvalidURL =
     [InvalidURL, ClientError, ValueError, Exception, BaseException, Object]"
  "the_mro has_ssl ClientConnectorSSLError =
     (if has_ssl
      then [ClientConnectorSSLError, ClientConnectorError, ClientOSError,
            ClientConnectionError, ClientError, SSLError, OSError, Exception,
            BaseException, Object]
      else [ClientConnectorSSLError, ClientConnectorError, ClientOSError,
            ClientConnectionError, ClientError, OSError, Exception, BaseException,
            Object])"
  "the_mro has_ssl ClientConnectorCertificateError =
     (if has_ssl
      then [ClientConnectorCertificateError, ClientConnectorError, ClientOSError,
            ClientConnectionError, ClientError, OSError, CertificateError, ValueError,
            Exception, BaseException, Object]
      else [ClientConnectorCertificateError, ClientConnectorError, ClientOSError,
            ClientConnectionError, ClientError, OSError, ValueError, Exception,
            BaseException, Object])"
  "the_mro has_ssl Object =
     [Object]"
  "the_mro has_ssl BaseException =
     [BaseException, Object]"
  "the_mro has_ssl Exception =
     [Exception, BaseException, Object]"
  "the_mro has_ssl OSError =
     [OSError, Exception, BaseException, Object]"
  "the_mro has_ssl ValueError =
     [ValueError, Exception, BaseException, Object]"
  "the_mro has_ssl TimeoutError =
     [TimeoutError, Exception, BaseException, Object]"
  "the_mro has_ssl SSLError =
     [SSLError, OSError, Exception, BaseException, Object]"
  "the_mro has_ssl CertificateError =
     [CertificateError, ValueError, Exception, BaseException, Object]"
  by (cases has_ssl; simp; code_simp)+

section \<open>Auxiliary facts\<close>

subsection \<open>Unfolding\<close>

lemmas call_defs = construct_def call_new_def call_init_def resolve_def resolve_super_def
  resolve_property_def bind_def bind_args_def blank_def use_init_def
  BaseException_new_def BaseException_init_def OSError_new_def OSError_init_def oserror_init_def
  super_init_def setattr_def

lemmas attr_defs = getattr_def property_get_def self_attr_def slot_val_def
  ClientConnectorError_os_error_def ClientConnectorError_host_def ClientConnectorError_port_def
  ClientConnectorError_ssl_def InvalidURL_url_def
  ClientConnectorCertificateError_certificate_error_def ClientConnectorCertificateError_host_def
  ClientConnectorCertificateError_port_def ClientConnectorCertificateError_ssl_def

lemmas init_defs = ClientResponseError_init_def ClientConnectorError_init_def
  ServerDisconnectedError_init_def ServerFingerprintMismatch_init_def InvalidURL_init_def
  ClientConnectorCertificateError_init_def

lemmas str_defs = construct_str_def construct_repr_def construct_get_def exc_str_def exc_repr_def
  BaseException_str_def OSError_str_def ClientConnectorError_str_def
  ClientConnectorCertificateError_str_def ServerFingerprintMismatch_repr_def InvalidURL_repr_def
  py_format_def result_contains_def

lemma value_attrs:
  "getattr_val (ConnectionKey h p s) ''host'' = Inr h"
  "getattr_val (ConnectionKey h p s) ''port'' = Inr p"
  "getattr_val (ConnectionKey h p s) ''ssl'' = Inr s"
  "getattr_val (os_error_value en se) ''errno'' = Inr (PInt en)"
  "getattr_val (os_error_value en se) ''strerror'' = Inr (PStr se)"
  "getattr_val (error_value c m) ''args'' = Inr (PTuple [PStr m])"
  "class_name (error_value c m) = c"
  by (simp_all add: ConnectionKey_def os_error_value_def error_value_def Let_def)

subsection \<open>What the initialisers leave unchanged\<close>

lemma setattr_Inr:
  "setattr h e n v = Inr e' \<Longrightarrow> e' = e\<lparr>attrs := AList.update n v (attrs e)\<rparr>"
  by (simp add: setattr_def split: option.splits)

lemma oserror_init_frame:
  "exc_class (oserror_init e as) = exc_class e" "attrs (oserror_init e as) = attrs e"
  by (simp_all add: oserror_init_def Let_def)

lemma super_init_frame:
  "super_init h k e as kw = Inr e' \<Longrightarrow> exc_class e' = exc_class e \<and> attrs e' = attrs e"
  by (auto simp: super_init_def OSError_init_def BaseException_init_def oserror_init_frame
      split: option.splits if_splits)

lemma call_new_class: "call_new h c as kw = Inr e \<Longrightarrow> exc_class e = c \<and> attrs e = []"
  by (auto simp: call_new_def OSError_new_def BaseException_new_def blank_def oserror_init_frame
      split: option.splits if_splits)

lemma ClientResponseError_init_frame:
  "ClientResponseError_init h e as kw = Inr e' \<Longrightarrow> exc_class e' = exc_class e"
  by (auto simp: ClientResponseError_init_def bind_def split: sum.splits list.splits
      dest!: setattr_Inr super_init_frame)

lemma ClientConnectorError_init_frame:
  "ClientConnectorError_init h e as kw = Inr e' \<Longrightarrow>
   exc_class e' = exc_class e \<and> map_of (attrs e') ''_conn_key'' \<noteq> None
   \<and> map_of (attrs e') ''_certificate_error'' = map_of (attrs e) ''_certificate_error''"
  by (auto simp: ClientConnectorError_init_def bind_def update_conv' split: sum.splits list.splits
      dest!: setattr_Inr super_init_frame)

lemma ServerDisconnectedError_init_frame:
  "ServerDisconnectedError_init h e as kw = Inr e' \<Longrightarrow> exc_class e' = exc_class e"
  by (auto simp: ServerDisconnectedError_init_def bind_def split: sum.splits list.splits
      dest!: setattr_Inr)

lemma ServerFingerprintMismatch_init_frame:
  "ServerFingerprintMismatch_init h e as kw = Inr e' \<Longrightarrow> exc_class e' = exc_class e"
  by (auto simp: ServerFingerprintMismatch_init_def bind_def split: sum.splits list.splits
      dest!: setattr_Inr)

lemma InvalidURL_init_frame:
  "InvalidURL_init h e as kw = Inr e' \<Longrightarrow> exc_class e' = exc_class e"
  by (auto simp: InvalidURL_init_def bind_def split: sum.splits list.splits
      dest!: super_init_frame)

lemma ClientConnectorCertificateError_init_frame:
  "ClientConnectorCertificateError_init h e as kw = Inr e' \<Longrightarrow>
   exc_class e' = exc_class e \<and> args e' = args e \<and> errno e' = errno e
   \<and> strerror e' = strerror e \<and> filename e' = filename e \<and> filename2 e' = filename2 e
   \<and> (\<exists>k ce. attrs e' = AList.update ''_certificate_error'' ce (AList.update ''_conn_key'' k (attrs e)))"
  by (auto simp: ClientConnectorCertificateError_init_def bind_def split: sum.splits list.splits
      dest!: setattr_Inr) blast

lemma call_init_class: "call_init h k e as kw = Inr e' \<Longrightarrow> exc_class e' = exc_class e"
  by (auto simp: call_init_def OSError_init_def BaseException_init_def oserror_init_frame
      split: if_splits
      dest: ClientResponseError_init_frame ClientConnectorError_init_frame
        ServerDisconnectedError_init_frame ServerFingerprintMismatch_init_frame
        InvalidURL_init_frame ClientConnectorCertificateError_init_frame)

lemma construct_class: "construct h c as kw = Inr e \<Longrightarrow> exc_class e = c"
  by (auto simp: construct_def bind_def split: sum.splits option.splits
      dest!: call_new_class call_init_class)


lemma has_attr_Inr: "has_attr v n \<Longrightarrow> \<exists>x. getattr_val v n = Inr x"
  by (simp add: has_attr_def split: sum.splits)

lemma connector_str_total:
  assumes k: "map_of (attrs e) ''_conn_key'' = Some k"
    and r: "fields_readable e"
    and p: "resolve_property h (exc_class e) ''strerror'' = Some OSError"
      "resolve_property h (exc_class e) ''host'' = Some ClientConnectorError"
      "resolve_property h (exc_class e) ''port'' = Some ClientConnectorError"
      "resolve_property h (exc_class e) ''ssl'' = Some ClientConnectorError"
  shows "\<exists>s. ClientConnectorError_str h e = Inr s"
proof -
  from k r have "has_attr k ''host''" "has_attr k ''port''" "has_attr k ''ssl''"
    by (simp_all add: fields_readable_def)
  then obtain x y z where "getattr_val k ''host'' = Inr x" "getattr_val k ''port'' = Inr y"
      "getattr_val k ''ssl'' = Inr z"
    by (blast dest: has_attr_Inr)
  with k p show ?thesis
    by (simp add: ClientConnectorError_str_def attr_defs bind_def)
qed

lemma certificate_str_total:
  assumes k: "map_of (attrs e) ''_conn_key'' = Some k"
    and ce: "map_of (attrs e) ''_certificate_error'' = Some ce"
    and r: "fields_readable e"
    and p: "exc_class e = ClientConnectorCertificateError"
  shows "\<exists>s. ClientConnectorCertificateError_str h e = Inr s"
proof -
  from k ce r have "has_attr k ''host''" "has_attr k ''port''" "has_attr k ''ssl''"
      "has_attr ce ''args''"
    by (simp_all add: fields_readable_def)
  then obtain x y z a where "getattr_val k ''host'' = Inr x" "getattr_val k ''port'' = Inr y"
      "getattr_val k ''ssl'' = Inr z" "getattr_val ce ''args'' = Inr a"
    by (blast dest: has_attr_Inr)
  with k ce p show ?thesis
    by (simp add: ClientConnectorCertificateError_str_def attr_defs bind_def
        resolve_property_def the_mro_table)
qed

lemma resolve_certificate:
  "resolve h ClientConnectorCertificateError ''__new__'' = Some OSError"
  "resolve h ClientConnectorCertificateError ''__init__'' = Some ClientConnectorCertificateError"
  "resolve h ClientConnectorCertificateError ''__str__'' = Some ClientConnectorCertificateError"
  by (simp_all add: resolve_def the_mro_table)

lemma connector_has_key:
  "resolve h c ''__init__'' = Some ClientConnectorError \<Longrightarrow> construct h c as kw = Inr e \<Longrightarrow>
   \<exists>k. map_of (attrs e) ''_conn_key'' = Some k"
  by (auto simp: construct_def call_init_def bind_def split: sum.splits
      dest!: ClientConnectorError_init_frame)

lemma certificate_has_fields:
  "construct h ClientConnectorCertificateError as kw = Inr e \<Longrightarrow>
   \<exists>k ce. attrs e = [(''_conn_key'', k), (''_certificate_error'', ce)]"
  by (auto simp: construct_def call_init_def bind_def resolve_certificate
      split: sum.splits dest!: ClientConnectorCertificateError_init_frame call_new_class)

section \<open>The specified properties\<close>

subsection \<open>C1: a connector error built from a connection key and an OS error\<close>

text \<open>
  C1, as stated, fails: the diagnostic string of the \<^verbatim>\<open>ClientConnectorError\<close> built from
  the connection key (host \<^verbatim>\<open>example.com\<close>, port 443, TLS flag true) and the OS error
  (61, \<^verbatim>\<open>Connection refused\<close>) does not contain \<^verbatim>\<open>tls:true\<close>. The template of
  \<^verbatim>\<open>__str__\<close> writes \<^verbatim>\<open>ssl:\<close>, and the flag prints as \<^verbatim>\<open>True\<close>.
\<close>

theorem connector_error_str_no_tls_true:
  "\<not> result_contains
      (construct_str True ClientConnectorError
         [ConnectionKey (PStr ''example.com'') (PInt 443) (PBool True),
          os_error_value 61 ''Connection refused''] [])
      ''tls:true''"
  by (simp add: str_defs call_defs attr_defs init_defs value_attrs the_mro_table
      str_int_def str_nat.simps)

text \<open>
  C1, amended: for that \<^verbatim>\<open>ClientConnectorError\<close> the accessors \<^verbatim>\<open>host\<close>, \<^verbatim>\<open>port\<close> and
  \<^verbatim>\<open>ssl\<close> return \<^verbatim>\<open>example.com\<close>, 443 and true; each is read through the stored
  connection key, and the instance dictionary holds the key and the OS error only, no copy
  of the three fields. The diagnostic string is
  \<^verbatim>\<open>Cannot connect to host example.com:443 ssl:True [Connection refused]\<close>; it contains
  \<^verbatim>\<open>example.com:443\<close> and \<^verbatim>\<open>ssl:True\<close>. This holds with and without the \<^verbatim>\<open>ssl\<close> module.
\<close>

theorem connector_error_example:
  "construct_get has_ssl ClientConnectorError
      [ConnectionKey (PStr ''example.com'') (PInt 443) (PBool True),
       os_error_value 61 ''Connection refused''] [] ''host'' = Inr (PStr ''example.com'')
   \<and> construct_get has_ssl ClientConnectorError
      [ConnectionKey (PStr ''example.com'') (PInt 443) (PBool True),
       os_error_value 61 ''Connection refused''] [] ''port'' = Inr (PInt 443)
   \<and> construct_get has_ssl ClientConnectorError
      [ConnectionKey (PStr ''example.com'') (PInt 443) (PBool True),
       os_error_value 61 ''Connection refused''] [] ''ssl'' = Inr (PBool True)
   \<and> construct_str has_ssl ClientConnectorError
      [ConnectionKey (PStr ''example.com'') (PInt 443) (PBool True),
       os_error_value 61 ''Connection refused''] []
     = Inr ''Cannot connect to host example.com:443 ssl:True [Connection refused]''
   \<and> result_contains
      (construct_str has_ssl ClientConnectorError
         [ConnectionKey (PStr ''example.com'') (PInt 443) (PBool True),
          os_error_value 61 ''Connection refused''] []) ''example.com:443''
   \<and> result_contains
      (construct_str has_ssl ClientConnectorError
         [ConnectionKey (PStr ''example.com'') (PInt 443) (PBool True),
          os_error_value 61 ''Connection refused''] []) ''ssl:True''
   \<and> (\<exists>e. construct has_ssl ClientConnectorError
         [ConnectionKey (PStr ''example.com'') (PInt 443) (PBool True),
          os_error_value 61 ''Connection refused''] [] = Inr e
        \<and> map fst (attrs e) = [''_conn_key'', ''_os_error'']
        \<and> getattr has_ssl e ''host''
            = bind (self_attr e ''_conn_key'') (\<lambda>k. getattr_val k ''host'')
        \<and> getattr has_ssl e ''port''
            = bind (self_attr e ''_conn_key'') (\<lambda>k. getattr_val k ''port'')
        \<and> getattr has_ssl e ''ssl''
            = bind (self_attr e ''_conn_key'') (\<lambda>k. getattr_val k ''ssl''))"
  by (simp add: str_defs call_defs attr_defs init_defs value_attrs the_mro_table
      str_int_def str_nat.simps)

subsection \<open>C2: the two TLS variants when the \<^verbatim>\<open>ssl\<close> module is missing\<close>

text \<open>
  C2, as stated, fails: without the \<^verbatim>\<open>ssl\<close> module the bases of
  \<^verbatim>\<open>ClientConnectorSSLError\<close> are \<^verbatim>\<open>(ClientConnectorError,)\<close> alone, so the class is
  not a \<^verbatim>\<open>ValueError\<close>.
\<close>

theorem ssl_error_not_value_error_without_tls:
  "\<not> issubclass False ClientConnectorSSLError ValueError"
  by (simp add: issubclass_def the_mro_table)

text \<open>
  C2, amended: without the \<^verbatim>\<open>ssl\<close> module \<^verbatim>\<open>ClientConnectorCertificateError\<close> is both a
  connector error and a \<^verbatim>\<open>ValueError\<close>, while \<^verbatim>\<open>ClientConnectorSSLError\<close> is a
  connector error and not a \<^verbatim>\<open>ValueError\<close>; neither has \<^verbatim>\<open>SSLError\<close> or
  \<^verbatim>\<open>CertificateError\<close> among its classes. The certificate variant still stores and
  returns the certificate error it is given.
\<close>

theorem tls_absent_classification:
  "issubclass False ClientConnectorSSLError ClientConnectorError
   \<and> \<not> issubclass False ClientConnectorSSLError ValueError
   \<and> issubclass False ClientConnectorCertificateError ClientConnectorError
   \<and> issubclass False ClientConnectorCertificateError ValueError
   \<and> \<not> issubclass False ClientConnectorSSLError SSLError
   \<and> \<not> issubclass False ClientConnectorSSLError CertificateError
   \<and> \<not> issubclass False ClientConnectorCertificateError SSLError
   \<and> \<not> issubclass False ClientConnectorCertificateError CertificateError
   \<and> construct_get False ClientConnectorCertificateError [k, ce] [] ''certificate_error''
       = Inr ce"
  by (simp add: issubclass_def the_mro_table construct_get_def call_defs attr_defs init_defs)

subsection \<open>C3: producing the diagnostic string\<close>

text \<open>
  C3, as stated, fails: for a \<^verbatim>\<open>ClientConnectorCertificateError\<close> whose certificate error
  is \<^verbatim>\<open>None\<close> the template field \<^verbatim>\<open>{0.certificate_error.args}\<close> reads an attribute that
  \<^verbatim>\<open>None\<close> does not have, and \<^verbatim>\<open>__str__\<close> raises \<^verbatim>\<open>AttributeError\<close>.
\<close>

theorem certificate_error_str_raises_on_none:
  "construct_str True ClientConnectorCertificateError
     [ConnectionKey (PStr ''example.com'') (PInt 443) (PBool True), PNone] []
   = Inl AttributeError"
  by (simp add: str_defs call_defs attr_defs init_defs value_attrs the_mro_table)

text \<open>
  C3, amended: for every class of the module, every successful call of it, and every
  combination of stored values in which the stored connection key (if the variant has one)
  has the attributes \<^verbatim>\<open>host\<close>, \<^verbatim>\<open>port\<close> and \<^verbatim>\<open>ssl\<close> and the stored certificate error
  (if the variant has one) has the attribute \<^verbatim>\<open>args\<close>, producing the diagnostic string
  returns a string and raises nothing; the string is a function of the stored fields. A
  \<^verbatim>\<open>ServerDisconnectedError\<close> without message prints as the empty string.
\<close>

theorem exc_str_total:
  assumes c: "construct has_ssl c as kw = Inr e" and r: "fields_readable e"
  shows "(\<exists>s. exc_str has_ssl e = Inr s)
    \<and> construct_str has_ssl ServerDisconnectedError [] [] = Inr []"
proof
  have cls: "exc_class e = c" by (rule construct_class [OF c])
  consider (conn) "c = ClientConnectorError \<or> c = ClientProxyConnectionError
        \<or> c = ClientConnectorSSLError"
    | (cert) "c = ClientConnectorCertificateError"
    | (other) "c \<noteq> ClientConnectorError" "c \<noteq> ClientProxyConnectionError"
        "c \<noteq> ClientConnectorSSLError" "c \<noteq> ClientConnectorCertificateError"
    by blast
  then show "\<exists>s. exc_str has_ssl e = Inr s"
  proof cases
    case conn
    then have i: "resolve has_ssl c ''__init__'' = Some ClientConnectorError"
      and s: "resolve has_ssl c ''__str__'' = Some ClientConnectorError"
      by (auto simp: resolve_def the_mro_table)
    from connector_has_key [OF i c] obtain k where k: "map_of (attrs e) ''_conn_key'' = Some k" ..
    have "\<exists>s. ClientConnectorError_str has_ssl e = Inr s"
      using conn
      by (intro connector_str_total [OF k r]) (auto simp: cls resolve_property_def the_mro_table)
    with s show ?thesis by (simp add: exc_str_def cls)
  next
    case cert
    from certificate_has_fields [OF c [unfolded cert]] obtain k ce
      where a: "attrs e = [(''_conn_key'', k), (''_certificate_error'', ce)]" by blast
    have "\<exists>s. ClientConnectorCertificateError_str has_ssl e = Inr s"
      by (rule certificate_str_total [where k = k and ce = ce]) (simp_all add: a r cls cert)
    then show ?thesis by (simp add: exc_str_def cls cert resolve_certificate)
  next
    case other
    with c show ?thesis
      by (cases c) (simp_all add: exc_str_def cls resolve_def the_mro_table construct_def
          call_new_def bind_def)
  qed
next
  show "construct_str has_ssl ServerDisconnectedError [] [] = Inr []"
    by (simp add: str_defs call_defs init_defs the_mro_table)
qed

text \<open>
  C3, an instance: a \<^verbatim>\<open>ClientConnectorCertificateError\<close> built from a connection key
  and a certificate error carrying one message has readable fields and prints.
\<close>

theorem exc_str_total_witness:
  "\<exists>e. construct True ClientConnectorCertificateError
         [ConnectionKey (PStr ''example.com'') (PInt 443) (PBool True),
          error_value ''CertificateError'' ''hostname mismatch''] [] = Inr e
       \<and> fields_readable e
       \<and> (\<exists>s. exc_str True e = Inr s)
       \<and> construct_str True ServerDisconnectedError [] [] = Inr []"
proof -
  have "\<exists>e. construct True ClientConnectorCertificateError
         [ConnectionKey (PStr ''example.com'') (PInt 443) (PBool True),
          error_value ''CertificateError'' ''hostname mismatch''] [] = Inr e
       \<and> fields_readable e"
    by (simp add: call_defs init_defs the_mro_table fields_readable_def has_attr_def value_attrs)
  then obtain e where c: "construct True ClientConnectorCertificateError
         [ConnectionKey (PStr ''example.com'') (PInt 443) (PBool True),
          error_value ''CertificateError'' ''hostname mismatch''] [] = Inr e"
    and r: "fields_readable e" by blast
  from exc_str_total [OF c r] c r show ?thesis by blast
qed

subsection \<open>C4: a fingerprint mismatch\<close>

text \<open>
  C4: \<^verbatim>\<open>ServerFingerprintMismatch\<close> built with expected \<^verbatim>\<open>AA:BB\<close>, got \<^verbatim>\<open>CC:DD\<close>, host
  \<^verbatim>\<open>h\<close> and port 1234 returns the four values unchanged through its attributes, and its
  diagnostic string, the \<^verbatim>\<open>__repr__\<close> the class defines, is
  \<^verbatim>\<open><ServerFingerprintMismatch expected=AA:BB got=CC:DD host=h port=1234>\<close>, which contains
  both fingerprints. The same call written with keywords yields the same object up to the
  \<^verbatim>\<open>args\<close> tuple, which \<^verbatim>\<open>__repr__\<close> does not read.
\<close>

theorem fingerprint_mismatch_example:
  "construct_get has_ssl ServerFingerprintMismatch
      [PStr ''AA:BB'', PStr ''CC:DD'', PStr ''h'', PInt 1234] [] ''expected'' = Inr (PStr ''AA:BB'')
   \<and> construct_get has_ssl ServerFingerprintMismatch
      [PStr ''AA:BB'', PStr ''CC:DD'', PStr ''h'', PInt 1234] [] ''got'' = Inr (PStr ''CC:DD'')
   \<and> construct_get has_ssl ServerFingerprintMismatch
      [PStr ''AA:BB'', PStr ''CC:DD'', PStr ''h'', PInt 1234] [] ''host'' = Inr (PStr ''h'')
   \<and> construct_get has_ssl ServerFingerprintMismatch
      [PStr ''AA:BB'', PStr ''CC:DD'', PStr ''h'', PInt 1234] [] ''port'' = Inr (PInt 1234)
   \<and> construct_repr has_ssl ServerFingerprintMismatch
      [PStr ''AA:BB'', PStr ''CC:DD'', PStr ''h'', PInt 1234] []
     = Inr ''<ServerFingerprintMismatch expected=AA:BB got=CC:DD host=h port=1234>''
   \<and> result_contains (construct_repr has_ssl ServerFingerprintMismatch
      [PStr ''AA:BB'', PStr ''CC:DD'', PStr ''h'', PInt 1234] []) ''AA:BB''
   \<and> result_contains (construct_repr has_ssl ServerFingerprintMismatch
      [PStr ''AA:BB'', PStr ''CC:DD'', PStr ''h'', PInt 1234] []) ''CC:DD''
   \<and> construct has_ssl ServerFingerprintMismatch []
        [(''expected'', PStr ''AA:BB''), (''got'', PStr ''CC:DD''), (''host'', PStr ''h''),
         (''port'', PInt 1234)]
     = bind (construct has_ssl ServerFingerprintMismatch
        [PStr ''AA:BB'', PStr ''CC:DD'', PStr ''h'', PInt 1234] []) (\<lambda>e. Inr (e\<lparr>args := []\<rparr>))"
  by (simp add: str_defs call_defs attr_defs init_defs the_mro_table str_int_def str_nat.simps)

subsection \<open>C5: the TLS variants are connection errors\<close>

text \<open>
  C5: every \<^verbatim>\<open>ClientConnectorCertificateError\<close> and every \<^verbatim>\<open>ClientConnectorSSLError\<close>
  is a \<^verbatim>\<open>ClientConnectionError\<close> (and a \<^verbatim>\<open>ClientError\<close> and a \<^verbatim>\<open>ClientConnectorError\<close>),
  whether or not the \<^verbatim>\<open>ssl\<close> module is there, and an instance of its own class; with the
  \<^verbatim>\<open>ssl\<close> module the first is also a \<^verbatim>\<open>CertificateError\<close> and the second an
  \<^verbatim>\<open>SSLError\<close>.
\<close>

theorem tls_errors_are_connection_errors:
  assumes c: "construct has_ssl c as kw = Inr e"
    and v: "c = ClientConnectorCertificateError \<or> c = ClientConnectorSSLError"
  shows "isinstance has_ssl e ClientConnectionError
    \<and> isinstance has_ssl e ClientError
    \<and> isinstance has_ssl e ClientConnectorError
    \<and> isinstance has_ssl e c
    \<and> (has_ssl \<longrightarrow>
         isinstance has_ssl e
           (if c = ClientConnectorCertificateError then CertificateError else SSLError))"
proof -
  have "exc_class e = c" by (rule construct_class [OF c])
  with v show ?thesis
    by (auto simp: isinstance_def issubclass_def the_mro_table)
qed

text \<open>C5, two instances with the \<^verbatim>\<open>ssl\<close> module present, one of each class.\<close>

theorem tls_errors_are_connection_errors_witness:
  "(\<exists>e. construct True ClientConnectorCertificateError
         [ConnectionKey (PStr ''example.com'') (PInt 443) (PBool True),
          error_value ''CertificateError'' ''hostname mismatch''] [] = Inr e
       \<and> isinstance True e ClientConnectionError
       \<and> isinstance True e ClientConnectorCertificateError
       \<and> isinstance True e CertificateError)
   \<and> (\<exists>e. construct True ClientConnectorSSLError
         [ConnectionKey (PStr ''example.com'') (PInt 443) (PBool True),
          os_error_value 1 ''handshake failure''] [] = Inr e
       \<and> isinstance True e ClientConnectionError
       \<and> isinstance True e ClientConnectorSSLError
       \<and> isinstance True e SSLError)"
proof -
  have "\<exists>e. construct True ClientConnectorCertificateError
         [ConnectionKey (PStr ''example.com'') (PInt 443) (PBool True),
          error_value ''CertificateError'' ''hostname mismatch''] [] = Inr e"
    by (simp add: call_defs init_defs the_mro_table)
  then obtain e where c: "construct True ClientConnectorCertificateError
         [ConnectionKey (PStr ''example.com'') (PInt 443) (PBool True),
          error_value ''CertificateError'' ''hostname mismatch''] [] = Inr e" ..
  have "\<exists>e. construct True ClientConnectorSSLError
         [ConnectionKey (PStr ''example.com'') (PInt 443) (PBool True),
          os_error_value 1 ''handshake failure''] [] = Inr e"
    by (simp add: call_defs init_defs the_mro_table value_attrs)
  then obtain e' where c': "construct True ClientConnectorSSLError
         [ConnectionKey (PStr ''example.com'') (PInt 443) (PBool True),
          os_error_value 1 ''handshake failure''] [] = Inr e'" ..
  from tls_errors_are_connection_errors [OF c] tls_errors_are_connection_errors [OF c'] c c'
  show ?thesis by auto
qed

subsection \<open>C6: every field reads back as supplied\<close>

text \<open>
  C6: for every variant that takes fields, each field reads back exactly as it was supplied
  to the constructor. For \<^verbatim>\<open>ClientResponseError\<close> and its three subclasses the request
  info, the history, and a supplied code, message and headers come back unchanged (the
  defaults 0, empty string and \<^verbatim>\<open>None\<close> apply only to what was not supplied); a history
  of three entries comes back as the same three entries in the same order, whether it is a
  tuple or a list and whether or not entries repeat. The same holds for the connector
  errors (OS error, and host, port and TLS flag through the key, errno and strerror
  through the OS error), \<^verbatim>\<open>ClientOSError\<close>, \<^verbatim>\<open>ServerDisconnectedError\<close>,
  \<^verbatim>\<open>ServerFingerprintMismatch\<close>, \<^verbatim>\<open>InvalidURL\<close> and \<^verbatim>\<open>ClientConnectorCertificateError\<close>.
\<close>

theorem field_round_trip:
  "list_all (\<lambda>c.
       construct_get has_ssl c [ri, hist]
           [(''code'', cd), (''message'', msg), (''headers'', hdrs)] ''request_info'' = Inr ri
     \<and> construct_get has_ssl c [ri, hist]
           [(''code'', cd), (''message'', msg), (''headers'', hdrs)] ''history'' = Inr hist
     \<and> construct_get has_ssl c [ri, hist]
           [(''code'', cd), (''message'', msg), (''headers'', hdrs)] ''code'' = Inr cd
     \<and> construct_get has_ssl c [ri, hist]
           [(''code'', cd), (''message'', msg), (''headers'', hdrs)] ''message'' = Inr msg
     \<and> construct_get has_ssl c [ri, hist]
           [(''code'', cd), (''message'', msg), (''headers'', hdrs)] ''headers'' = Inr hdrs
     \<and> construct_get has_ssl c [ri, hist] [] ''request_info'' = Inr ri
     \<and> construct_get has_ssl c [ri, hist] [] ''history'' = Inr hist
     \<and> construct_get has_ssl c [ri, hist] [] ''code'' = Inr (PInt 0)
     \<and> construct_get has_ssl c [ri, hist] [] ''message'' = Inr (PStr [])
     \<and> construct_get has_ssl c [ri, hist] [] ''headers'' = Inr PNone
     \<and> construct_get has_ssl c [] [(''history'', hist), (''request_info'', ri)] ''history''
         = Inr hist
     \<and> construct_get has_ssl c [ri, PTuple [r1, r2, r3]] [] ''history''
         = Inr (PTuple [r1, r2, r3])
     \<and> construct_get has_ssl c [ri, PList [r1, r2, r3]] [] ''history''
         = Inr (PList [r1, r2, r3]))
     [ClientResponseError, ContentTypeError, WSServerHandshakeError, ClientHttpProxyError]
   \<and> list_all (\<lambda>c.
       construct_get has_ssl c [ConnectionKey h p s, os_error_value en se] [] ''os_error''
         = Inr (os_error_value en se)
     \<and> construct_get has_ssl c [ConnectionKey h p s, os_error_value en se] [] ''host'' = Inr h
     \<and> construct_get has_ssl c [ConnectionKey h p s, os_error_value en se] [] ''port'' = Inr p
     \<and> construct_get has_ssl c [ConnectionKey h p s, os_error_value en se] [] ''ssl'' = Inr s
     \<and> construct_get has_ssl c [ConnectionKey h p s, os_error_value en se] [] ''errno''
         = Inr (PInt en)
     \<and> construct_get has_ssl c [ConnectionKey h p s, os_error_value en se] [] ''strerror''
         = Inr (PStr se))
     [ClientConnectorError, ClientProxyConnectionError, ClientConnectorSSLError]
   \<and> construct_get has_ssl ClientOSError [a, b] [] ''errno'' = Inr a
   \<and> construct_get has_ssl ClientOSError [a, b] [] ''strerror'' = Inr b
   \<and> construct_get has_ssl ClientOSError [a, b, f] [] ''filename'' = Inr f
   \<and> construct_get has_ssl ServerDisconnectedError [m] [] ''message'' = Inr m
   \<and> construct_get has_ssl ServerDisconnectedError [] [(''message'', m)] ''message'' = Inr m
   \<and> construct_get has_ssl ServerFingerprintMismatch [x, g, fh, fp] [] ''expected'' = Inr x
   \<and> construct_get has_ssl ServerFingerprintMismatch [x, g, fh, fp] [] ''got'' = Inr g
   \<and> construct_get has_ssl ServerFingerprintMismatch [x, g, fh, fp] [] ''host'' = Inr fh
   \<and> construct_get has_ssl ServerFingerprintMismatch [x, g, fh, fp] [] ''port'' = Inr fp
   \<and> construct_get has_ssl InvalidURL [u] [] ''url'' = Inr u
   \<and> construct_get has_ssl ClientConnectorCertificateError [ConnectionKey h p s, ce] []
        ''certificate_error'' = Inr ce
   \<and> construct_get has_ssl ClientConnectorCertificateError [ConnectionKey h p s, ce] []
        ''host'' = Inr h
   \<and> construct_get has_ssl ClientConnectorCertificateError [ConnectionKey h p s, ce] []
        ''port'' = Inr p
   \<and> construct_get has_ssl ClientConnectorCertificateError [ConnectionKey h p s, ce] []
        ''ssl'' = Inr s"
  by (simp add: construct_get_def call_defs attr_defs init_defs value_attrs the_mro_table)

subsection \<open>C7: constructing the TLS variants without the \<^verbatim>\<open>ssl\<close> module\<close>

text \<open>
  C7, as stated, fails: without the \<^verbatim>\<open>ssl\<close> module a \<^verbatim>\<open>ClientConnectorSSLError\<close> is
  constructed without failure, but the value is not a \<^verbatim>\<open>ValueError\<close>.
\<close>

theorem ssl_error_value_not_value_error_without_tls:
  "(case construct False ClientConnectorSSLError
           [ConnectionKey (PStr ''example.com'') (PInt 443) (PBool True),
            os_error_value 1 ''handshake failure''] [] of
      Inr e \<Rightarrow> \<not> isinstance False e ValueError
    | Inl err \<Rightarrow> False)"
  by (simp add: call_defs init_defs value_attrs the_mro_table isinstance_def issubclass_def)

text \<open>
  C7, amended: without the \<^verbatim>\<open>ssl\<close> module, constructing a \<^verbatim>\<open>ClientConnectorSSLError\<close>
  from a connection key and an OS error, or a \<^verbatim>\<open>ClientConnectorCertificateError\<close> from
  a connection key and a certificate error, succeeds, as the same calls do with the
  module. The certificate variant is then a connector error and a \<^verbatim>\<open>ValueError\<close>; the
  SSL variant is a connector error and an \<^verbatim>\<open>OSError\<close>, and not a \<^verbatim>\<open>ValueError\<close>.
\<close>

theorem tls_absent_construction:
  "(\<exists>e. construct False ClientConnectorSSLError [k, os_error_value en se] [] = Inr e
        \<and> isinstance False e ClientConnectorError
        \<and> isinstance False e OSError
        \<and> \<not> isinstance False e ValueError)
   \<and> (\<exists>e. construct False ClientConnectorCertificateError [k, ce] [] = Inr e
        \<and> isinstance False e ClientConnectorError
        \<and> isinstance False e ValueError)
   \<and> (\<exists>e. construct True ClientConnectorSSLError [k, os_error_value en se] [] = Inr e)
   \<and> (\<exists>e. construct True ClientConnectorCertificateError [k, ce] [] = Inr e)"
  by (simp add: call_defs init_defs value_attrs the_mro_table isinstance_def issubclass_def)

subsection \<open>C8: an invalid URL\<close>

text \<open>
  C8: for every string \<open>s\<close>, \<^verbatim>\<open>InvalidURL(s)\<close> is constructed, its \<^verbatim>\<open>url\<close> accessor
  returns \<open>s\<close>, and the value is both a \<^verbatim>\<open>ClientError\<close> and a \<^verbatim>\<open>ValueError\<close>; so for
  the string \<^verbatim>\<open>not a url\<close>.
\<close>

theorem invalid_url_round_trip:
  "(\<exists>e. construct has_ssl InvalidURL [PStr s] [] = Inr e
        \<and> getattr has_ssl e ''url'' = Inr (PStr s)
        \<and> isinstance has_ssl e ClientError
        \<and> isinstance has_ssl e ValueError)
   \<and> construct_get has_ssl InvalidURL [PStr ''not a url''] [] ''url'' = Inr (PStr ''not a url'')"
  by (simp add: construct_get_def call_defs attr_defs init_defs the_mro_table
      isinstance_def issubclass_def)

subsection \<open>C9: the certificate error never initialises the OS error\<close>

text \<open>
  C9: \<^verbatim>\<open>ClientConnectorCertificateError.__init__\<close> stores the connection key and the
  certificate error and calls no initialiser of a base class. So for every constructed
  value the instance dictionary holds exactly these two entries, the slots \<^verbatim>\<open>errno\<close> and
  \<^verbatim>\<open>strerror\<close> are unset and read as \<^verbatim>\<open>None\<close>, and \<^verbatim>\<open>args\<close> is the empty tuple,
  although the value is an \<^verbatim>\<open>OSError\<close> and a \<^verbatim>\<open>ClientConnectionError\<close>; whereas
  \<^verbatim>\<open>ClientConnectorError\<close> fills \<^verbatim>\<open>errno\<close>, \<^verbatim>\<open>strerror\<close> and \<^verbatim>\<open>args\<close> from the OS error.
\<close>

theorem certificate_error_skips_oserror_init:
  assumes c: "construct has_ssl ClientConnectorCertificateError as kw = Inr e"
  shows "map fst (attrs e) = [''_conn_key'', ''_certificate_error'']
    \<and> errno e = None \<and> strerror e = None \<and> args e = []
    \<and> getattr has_ssl e ''errno'' = Inr PNone
    \<and> getattr has_ssl e ''strerror'' = Inr PNone
    \<and> getattr has_ssl e ''args'' = Inr (PTuple [])
    \<and> isinstance has_ssl e OSError
    \<and> isinstance has_ssl e ClientConnectionError
    \<and> (\<exists>e'. construct has_ssl ClientConnectorError [k, os_error_value en se] [] = Inr e'
          \<and> errno e' = Some (PInt en) \<and> strerror e' = Some (PStr se)
          \<and> args e' = [PInt en, PStr se])"
proof -
  have cls: "exc_class e = ClientConnectorCertificateError"
    by (rule construct_class [OF c])
  from c obtain e0 where n: "call_new has_ssl ClientConnectorCertificateError as kw = Inr e0"
    and i: "ClientConnectorCertificateError_init has_ssl e0 as kw = Inr e"
    by (auto simp: construct_def call_init_def bind_def resolve_certificate split: sum.splits)
  from n have e0: "e0 = blank ClientConnectorCertificateError"
    by (simp add: call_new_def OSError_new_def use_init_def resolve_certificate)
  from ClientConnectorCertificateError_init_frame [OF i] e0
  have f: "errno e = None" "strerror e = None" "args e = []"
    "map fst (attrs e) = [''_conn_key'', ''_certificate_error'']"
    by (auto simp: blank_def)
  have g: "getattr has_ssl e ''errno'' = Inr PNone" "getattr has_ssl e ''strerror'' = Inr PNone"
    "getattr has_ssl e ''args'' = Inr (PTuple [])"
    by (simp_all add: attr_defs resolve_property_def the_mro_table cls f)
  have s: "isinstance has_ssl e OSError" "isinstance has_ssl e ClientConnectionError"
    by (simp_all add: isinstance_def issubclass_def the_mro_table cls)
  have "\<exists>e'. construct has_ssl ClientConnectorError [k, os_error_value en se] [] = Inr e'
          \<and> errno e' = Some (PInt en) \<and> strerror e' = Some (PStr se)
          \<and> args e' = [PInt en, PStr se]"
    by (simp add: call_defs init_defs value_attrs the_mro_table)
  with f g s show ?thesis by simp
qed

text \<open>C9, an instance with the \<^verbatim>\<open>ssl\<close> module present.\<close>

theorem certificate_error_skips_oserror_init_witness:
  "\<exists>e. construct True ClientConnectorCertificateError
         [ConnectionKey (PStr ''example.com'') (PInt 443) (PBool True),
          error_value ''CertificateError'' ''hostname mismatch''] [] = Inr e
       \<and> map fst (attrs e) = [''_conn_key'', ''_certificate_error'']
       \<and> errno e = None \<and> strerror e = None \<and> args e = []
       \<and> getattr True e ''errno'' = Inr PNone
       \<and> getattr True e ''args'' = Inr (PTuple [])
       \<and> isinstance True e OSError"
proof -
  have "\<exists>e. construct True ClientConnectorCertificateError
         [ConnectionKey (PStr ''example.com'') (PInt 443) (PBool True),
          error_value ''CertificateError'' ''hostname mismatch''] [] = Inr e"
    by (simp add: call_defs init_defs the_mro_table)
  then obtain e where c: "construct True ClientConnectorCertificateError
         [ConnectionKey (PStr ''example.com'') (PInt 443) (PBool True),
          error_value ''CertificateError'' ''hostname mismatch''] [] = Inr e" ..
  from certificate_error_skips_oserror_init [OF c] c show ?thesis by blast
qed

subsection \<open>C10: the plain string form of a fingerprint mismatch\<close>

text \<open>
  C10, as stated, fails: \<^verbatim>\<open>ServerFingerprintMismatch.__init__\<close> passes nothing on, but the
  allocator of the base exception has recorded the positional arguments of the call
  before \<^verbatim>\<open>__init__\<close> runs, so \<^verbatim>\<open>str\<close> of the value built from \<^verbatim>\<open>AA:BB\<close>, \<^verbatim>\<open>CC:DD\<close>,
  \<^verbatim>\<open>h\<close> and 1234 is the printed tuple of the four, not the empty string.
\<close>

theorem fingerprint_mismatch_str_not_empty:
  "construct_str True ServerFingerprintMismatch
     [PStr ''AA:BB'', PStr ''CC:DD'', PStr ''h'', PInt 1234] [] \<noteq> Inr []"
  by (simp add: str_defs call_defs init_defs the_mro_table)

text \<open>
  C10, amended: the constructor of \<^verbatim>\<open>ServerFingerprintMismatch\<close> passes nothing to the
  base initialiser. Called with four positional arguments, the value keeps them as its
  \<^verbatim>\<open>args\<close>, and its plain string form is the printed tuple of the four, which is not
  empty and shows both fingerprints, the host and the port; called with keywords only,
  \<^verbatim>\<open>args\<close> is empty and the plain string form is the empty string. The repr form is
  \<^verbatim>\<open><ServerFingerprintMismatch expected=... got=... host=... port=...>\<close> in both cases.
\<close>

theorem fingerprint_mismatch_str:
  "construct_str has_ssl ServerFingerprintMismatch [x, g, h, p] []
     = Inr (py_repr (PTuple [x, g, h, p]))
   \<and> py_repr (PTuple [x, g, h, p])
       = ''('' @ py_repr x @ '', '' @ py_repr g @ '', '' @ py_repr h @ '', '' @ py_repr p @ '')''
   \<and> py_repr (PTuple [x, g, h, p]) \<noteq> []
   \<and> construct_str has_ssl ServerFingerprintMismatch []
        [(''expected'', x), (''got'', g), (''host'', h), (''port'', p)] = Inr []
   \<and> construct_repr has_ssl ServerFingerprintMismatch [x, g, h, p] []
       = Inr (''<ServerFingerprintMismatch expected='' @ py_str x @ '' got='' @ py_str g
              @ '' host='' @ py_str h @ '' port='' @ py_str p @ ''>'')
   \<and> construct_repr has_ssl ServerFingerprintMismatch []
        [(''expected'', x), (''got'', g), (''host'', h), (''port'', p)]
       = Inr (''<ServerFingerprintMismatch expected='' @ py_str x @ '' got='' @ py_str g
              @ '' host='' @ py_str h @ '' port='' @ py_str p @ ''>'')
   \<and> construct_str has_ssl ServerFingerprintMismatch
        [PStr ''AA:BB'', PStr ''CC:DD'', PStr ''h'', PInt 1234] []
       = Inr (''('' @ [CHR 0x27] @ ''AA:BB'' @ [CHR 0x27] @ '', '' @ [CHR 0x27] @ ''CC:DD''
              @ [CHR 0x27] @ '', '' @ [CHR 0x27] @ ''h'' @ [CHR 0x27] @ '', 1234)'')"
  by (simp add: str_defs call_defs attr_defs init_defs the_mro_table
      repr_str_def repr_quote_def repr_char_def Let_def str_int_def str_nat.simps)

end
